theory Spec2Isabelle
  imports Main "HOL-Library.Sublist" "HOL-Library.Multiset"
begin

section \<open>Records of the remote service\<close>

text \<open>
  The pipeline of \<^verbatim>\<open>V2/fetch_reviews.py\<close> reads two attributes of every note the
  review service returns, \<^verbatim>\<open>invitations\<close> and \<^verbatim>\<open>signatures\<close>, each behind a
  \<^verbatim>\<open>hasattr\<close> test and inside a \<^verbatim>\<open>try\<close> block. An attribute is therefore in one
  of three conditions: the note does not have it (\<^verbatim>\<open>hasattr\<close> is false), reading or
  traversing it raises an \<^verbatim>\<open>Exception\<close> (a record of the wrong shape), or it holds the
  sequence of strings the service documents. Strings are taken to be ASCII, so that a
  character of the model is a character of Python.
\<close>

datatype py_exception = PyException (message: string)
  \<comment> \<open>an instance of Python's \<^verbatim>\<open>Exception\<close>; \<open>message\<close> is \<^verbatim>\<open>str(e)\<close>\<close>

datatype 'a attr = NoAttr | AttrError py_exception | Attr 'a

record api_note =
  invitations :: "string list attr"
  signatures :: "string list attr"

text \<open>
  \<^verbatim>\<open>client.get_all_notes(forum=paper_id)\<close> either raises or returns the notes of the
  forum, in the order of the service.
\<close>

type_synonym client = "string \<Rightarrow> py_exception + api_note list"

section \<open>Review Fetcher\<close>

text \<open>Python's \<^verbatim>\<open>needle in haystack\<close> on two strings: a contiguous, case-sensitive match.\<close>

fun str_contains :: "string \<Rightarrow> string \<Rightarrow> bool" where
  "str_contains needle [] = (needle = [])"
| "str_contains needle (c # cs) = (prefix needle (c # cs) \<or> str_contains needle cs)"

text \<open>
  The inner loop of \<^verbatim>\<open>fetch_reviews\<close>: the first invitation holding the token appends
  the note and leaves the loop (\<^verbatim>\<open>break\<close>).
\<close>

fun scan_invitations :: "api_note \<Rightarrow> string list \<Rightarrow> api_note list \<Rightarrow> api_note list" where
  "scan_invitations note [] reviews = reviews"
| "scan_invitations note (invitation # rest) reviews =
     (if str_contains ''Official_Review'' invitation then reviews @ [note]
      else scan_invitations note rest reviews)"

text \<open>
  The outer loop. A note without the attribute is scanned over the empty list; a note whose
  attribute raises ends the loop with the exception, whatever was collected before.
\<close>

fun collect_reviews :: "api_note list \<Rightarrow> api_note list \<Rightarrow> py_exception + api_note list" where
  "collect_reviews [] reviews = Inr reviews"
| "collect_reviews (note # notes) reviews =
     (case invitations note of
        NoAttr \<Rightarrow> collect_reviews notes (scan_invitations note [] reviews)
      | AttrError e \<Rightarrow> Inl e
      | Attr invs \<Rightarrow> collect_reviews notes (scan_invitations note invs reviews))"

text \<open>The body of the \<^verbatim>\<open>try\<close> block of \<^verbatim>\<open>fetch_reviews\<close>.\<close>

definition fetch_reviews_try :: "client \<Rightarrow> string \<Rightarrow> py_exception + api_note list" where
  "fetch_reviews_try client paper_id =
     (case client paper_id of
        Inl e \<Rightarrow> Inl e
      | Inr notes \<Rightarrow> collect_reviews notes [])"

text \<open>The line the handler prints: \<^verbatim>\<open>f"  [X] Error for {paper_id}: {str(e)[:80]}"\<close>.\<close>

definition error_line :: "string \<Rightarrow> py_exception \<Rightarrow> string" where
  "error_line paper_id e = ''  [X] Error for '' @ paper_id @ '': '' @ take 80 (message e)"

text \<open>
  \<^verbatim>\<open>fetch_reviews\<close> with its handler (\<^verbatim>\<open>except Exception\<close>): the lines it prints and the
  list it returns.
\<close>

definition fetch_reviews :: "client \<Rightarrow> string \<Rightarrow> string list \<times> api_note list" where
  "fetch_reviews client paper_id =
     (case fetch_reviews_try client paper_id of
        Inl e \<Rightarrow> ([error_line paper_id e], [])
      | Inr reviews \<Rightarrow> ([], reviews))"

section \<open>Reviewer Extractor\<close>

text \<open>
  The body of the \<^verbatim>\<open>try\<close> block of \<^verbatim>\<open>extract_reviewer_id\<close>; \<open>None\<close> is Python's
  \<^verbatim>\<open>None\<close>. A note without the attribute gets the empty list.
\<close>

definition extract_reviewer_id_try :: "api_note \<Rightarrow> py_exception + string option" where
  "extract_reviewer_id_try review =
     (case signatures review of
        NoAttr \<Rightarrow> Inr None
      | AttrError e \<Rightarrow> Inl e
      | Attr sigs \<Rightarrow>
          (if sigs \<noteq> [] \<and> length sigs > 0 then Inr (Some (sigs ! 0)) else Inr None))"

definition extract_reviewer_id :: "api_note \<Rightarrow> string option" where
  "extract_reviewer_id review =
     (case extract_reviewer_id_try review of
        Inl e \<Rightarrow> None
      | Inr reviewer_id \<Rightarrow> reviewer_id)"

section \<open>Expansion Engine\<close>

text \<open>
  One input record (a row of the input table) and one output row: the dictionary
  with the keys \<^verbatim>\<open>paper_id\<close>, \<^verbatim>\<open>forum_url\<close> and \<^verbatim>\<open>reviewer_id\<close>.
\<close>

record paper =
  paper_id :: string
  forum_url :: string

record row = paper +
  reviewer_id :: string

text \<open>
  The loop over the reviews of one paper. \<^verbatim>\<open>if reviewer_id:\<close> is Python's truth test:
  \<^verbatim>\<open>None\<close> and the empty string both fail it.
\<close>

fun expand_reviews :: "paper \<Rightarrow> api_note list \<Rightarrow> row list \<times> nat \<Rightarrow> row list \<times> nat" where
  "expand_reviews p [] (rows, review_count) = (rows, review_count)"
| "expand_reviews p (review # reviews) (rows, review_count) =
     (case extract_reviewer_id review of
        None \<Rightarrow> expand_reviews p reviews (rows, review_count)
      | Some rid \<Rightarrow>
          (if rid \<noteq> []
           then expand_reviews p reviews
                  (rows @ [\<lparr>paper_id = paper_id p, forum_url = forum_url p, reviewer_id = rid\<rparr>],
                   review_count + 1)
           else expand_reviews p reviews (rows, review_count)))"

text \<open>
  The variables \<^verbatim>\<open>main\<close> updates while it walks the papers, and the lines
  \<^verbatim>\<open>fetch_reviews\<close> printed on the way. The progress lines of \<^verbatim>\<open>main\<close> itself and the
  pause between two requests change none of these values and are left out.
\<close>

record counters =
  papers_with_reviews :: nat
  total_reviews :: nat
  errors :: nat

record run_state = counters +
  expanded_rows :: "row list"
  fetch_log :: "string list"

definition initial_state :: run_state where
  "initial_state =
     \<lparr>papers_with_reviews = 0, total_reviews = 0, errors = 0, expanded_rows = [], fetch_log = []\<rparr>"

text \<open>The body of the loop over the papers.\<close>

definition process_paper :: "client \<Rightarrow> run_state \<Rightarrow> paper \<Rightarrow> run_state" where
  "process_paper client st p =
     (let (lines, reviews) = fetch_reviews client (paper_id p);
          st1 = st\<lparr>fetch_log := fetch_log st @ lines\<rparr>
      in if reviews \<noteq> [] then
           (let (rows, review_count) = expand_reviews p reviews (expanded_rows st1, 0)
            in if review_count > 0
               then st1\<lparr>expanded_rows := rows,
                        papers_with_reviews := papers_with_reviews st1 + 1,
                        total_reviews := total_reviews st1 + review_count\<rparr>
               else st1\<lparr>expanded_rows := rows\<rparr>)
         else if length reviews = 0 then st1
         else st1\<lparr>errors := errors st1 + 1\<rparr>)"

fun process_papers :: "client \<Rightarrow> run_state \<Rightarrow> paper list \<Rightarrow> run_state" where
  "process_papers client st [] = st"
| "process_papers client st (p # papers) = process_papers client (process_paper client st p) papers"

text \<open>
  The summary block: \<^verbatim>\<open>Papers processed\<close> is \<^verbatim>\<open>len(papers)\<close>, the other three lines
  are the counters.
\<close>

record run_stats = counters +
  processed :: nat

definition summarise :: "paper list \<Rightarrow> run_state \<Rightarrow> run_stats" where
  "summarise papers st =
     \<lparr>papers_with_reviews = papers_with_reviews st, total_reviews = total_reviews st,
      errors = errors st, processed = length papers\<rparr>"

section \<open>Sampler\<close>

text \<open>
  Modelled from the spec: the random source of Python's standard library is not part of the
  repository. The spec asks for a seedable source; the state of such a generator fixes every
  draw it will make, so a generator is the sequence of its future raw draws.
\<close>

type_synonym rng = "nat \<Rightarrow> nat"

text \<open>
  Modelled from the spec: one draw of an index below \<open>n\<close>, which uses up the first raw draw.
\<close>

definition randbelow :: "nat \<Rightarrow> rng \<Rightarrow> nat \<times> rng" where
  "randbelow n g = (g 0 mod n, \<lambda>i. g (Suc i))"

text \<open>
  Modelled from the spec: sampling without replacement. Each step draws a position of the
  pool, takes the element there and removes it from the pool.
\<close>

fun draw :: "nat \<Rightarrow> 'a list \<Rightarrow> rng \<Rightarrow> 'a list \<times> rng" where
  "draw 0 pool g = ([], g)"
| "draw (Suc k) pool g =
     (if pool = [] then ([], g)
      else (let (j, g1) = randbelow (length pool) g;
                (rest, g2) = draw k (take j pool @ drop (Suc j) pool) g1
            in (pool ! j # rest, g2)))"

text \<open>
  Modelled from the spec: \<^verbatim>\<open>random.sample(population, k)\<close>, which raises
  \<^verbatim>\<open>ValueError\<close> when the sample is larger than the population.
\<close>

definition random_sample :: "rng \<Rightarrow> 'a list \<Rightarrow> nat \<Rightarrow> py_exception + 'a list \<times> rng" where
  "random_sample g population k =
     (if k \<le> length population then Inr (draw k population g)
      else Inl (PyException ''Sample larger than population or is negative''))"

definition SAMPLE_SIZE :: nat where
  "SAMPLE_SIZE = 150"

text \<open>
  The sampling block of \<^verbatim>\<open>main\<close>, with the constant \<^verbatim>\<open>SAMPLE_SIZE\<close> as a parameter. It
  returns the sampled rows and the generator it leaves behind.
\<close>

definition sampler :: "nat \<Rightarrow> rng \<Rightarrow> 'a list \<Rightarrow> py_exception + 'a list \<times> rng" where
  "sampler sample_size g rows =
     (let sample_count = min sample_size (length rows)
      in if length rows > sample_size then random_sample g rows sample_count
         else Inr (rows, g))"

section \<open>Seeded sampling\<close>



section \<open>The run\<close>

text \<open>
  What a run of \<^verbatim>\<open>main\<close> leaves behind: the summary it printed (none when it stopped
  before the loop), the rows it handed to the writer (none when no write was attempted) and
  the way it ended. Its surroundings are parameters: the client (none when the connection
  fails), the papers of the input file (none when reading fails), the random generator, and
  whether writing the output succeeds.
\<close>

datatype outcome =
  ConnectFailed | InputFailed | NoReviewsCollected | Crashed py_exception | WriteFailed | Success

record report =
  summary :: "run_stats option"
  written :: "row list option"
  outcome :: outcome

definition main :: "client option \<Rightarrow> paper list option \<Rightarrow> rng \<Rightarrow> bool \<Rightarrow> report" where
  "main connect input_file g write_ok =
     (case connect of
        None \<Rightarrow> \<lparr>summary = None, written = None, outcome = ConnectFailed\<rparr>
      | Some client \<Rightarrow>
          (case input_file of
             None \<Rightarrow> \<lparr>summary = None, written = None, outcome = InputFailed\<rparr>
           | Some papers \<Rightarrow>
               (let st = process_papers client initial_state papers;
                    stats = summarise papers st
                in if expanded_rows st = []
                   then \<lparr>summary = Some stats, written = None, outcome = NoReviewsCollected\<rparr>
                   else (case sampler SAMPLE_SIZE g (expanded_rows st) of
                           Inl e \<Rightarrow> \<lparr>summary = Some stats, written = None, outcome = Crashed e\<rparr>
                         | Inr (sampled_rows, g1) \<Rightarrow>
                             \<lparr>summary = Some stats, written = Some sampled_rows,
                              outcome = (if write_ok then Success else WriteFailed)\<rparr>))))"

section \<open>Notions of the specification\<close>

text \<open>
  The notes the fetcher is to keep, as the code decides it: some invitation label holds the
  token \<^verbatim>\<open>Official_Review\<close>. A note without the attribute has no label.
\<close>

definition has_official_review :: "api_note \<Rightarrow> bool" where
  "has_official_review n =
     (case invitations n of
        Attr invs \<Rightarrow> list_ex (str_contains ''Official_Review'') invs
      | _ \<Rightarrow> False)"

text \<open>The exception the first malformed note of a response raises, if there is one.\<close>

fun first_error :: "api_note list \<Rightarrow> py_exception option" where
  "first_error [] = None"
| "first_error (n # ns) =
     (case invitations n of AttrError e \<Rightarrow> Some e | _ \<Rightarrow> first_error ns)"

text \<open>
  The specification's reading of the match: the token anywhere in the label, whatever the
  case of the letters (ASCII letters folded to lower case on both sides).
\<close>

definition lower_char :: "char \<Rightarrow> char" where
  "lower_char c =
     (let n = (of_char c :: nat) in if 65 \<le> n \<and> n \<le> 90 then char_of (n + 32) else c)"

definition spec_official_review :: "string \<Rightarrow> bool" where
  "spec_official_review invitation =
     str_contains (map lower_char ''Official_Review'') (map lower_char invitation)"

text \<open>
  The reviewer identities of a list of reviews that pass the truth test of the engine:
  present and not the empty string.
\<close>

definition resolved_ids :: "api_note list \<Rightarrow> string list" where
  "resolved_ids reviews =
     List.map_filter
       (\<lambda>review. case extract_reviewer_id review of
                   None \<Rightarrow> None
                 | Some rid \<Rightarrow> (if rid \<noteq> [] then Some rid else None))
       reviews"

definition make_row :: "paper \<Rightarrow> string \<Rightarrow> row" where
  "make_row p rid = \<lparr>paper_id = paper_id p, forum_url = forum_url p, reviewer_id = rid\<rparr>"

section \<open>Test doubles\<close>

text \<open>
  Clients and generators for concrete runs: a service that answers every request with the
  same notes, one that fails every request, the service of the second end-to-end scenario
  (it fails for \<^verbatim>\<open>P1\<close> and has no notes for any other paper), a generator whose draws are
  all equal, one whose draws are \<open>0\<close> up to a position and \<open>1\<close> from there on, an official
  review with one signature and one without the attribute, and two papers.
\<close>

definition serving :: "api_note list \<Rightarrow> client" where
  "serving ns pid = Inr ns"

definition failing :: "py_exception \<Rightarrow> client" where
  "failing e pid = Inl e"

definition scenario2_client :: client where
  "scenario2_client pid = (if pid = ''P1'' then Inl (PyException ''timeout'') else Inr [])"

definition const_rng :: "nat \<Rightarrow> rng" where
  "const_rng v i = v"


definition review_by :: "string \<Rightarrow> api_note" where
  "review_by s = \<lparr>invitations = Attr [''ICLR.cc/2024/Conference/-/Official_Review''],
                  signatures = Attr [s]\<rparr>"

definition unsigned_review :: api_note where
  "unsigned_review = \<lparr>invitations = Attr [''ICLR.cc/2024/Conference/-/Official_Review''],
                       signatures = NoAttr\<rparr>"

definition paper1 :: paper where
  "paper1 = \<lparr>paper_id = ''P1'', forum_url = ''https://openreview.net/forum?id=P1''\<rparr>"

definition paper2 :: paper where
  "paper2 = \<lparr>paper_id = ''P2'', forum_url = ''https://openreview.net/forum?id=P2''\<rparr>"

section \<open>Review Fetcher: properties\<close>

lemma scan_invitations_eq:
  "scan_invitations n invs reviews =
     (if list_ex (str_contains ''Official_Review'') invs then reviews @ [n] else reviews)"
  by (induction invs) auto

lemma collect_reviews_eq:
  "collect_reviews ns reviews =
     (case first_error ns of
        Some e \<Rightarrow> Inl e
      | None \<Rightarrow> Inr (reviews @ filter has_official_review ns))"
  by (induction ns arbitrary: reviews)
     (auto simp: scan_invitations_eq has_official_review_def split: attr.splits option.splits)

lemma fetch_reviews_eq:
  "fetch_reviews client pid =
     (case client pid of
        Inl e \<Rightarrow> ([error_line pid e], [])
      | Inr ns \<Rightarrow>
          (case first_error ns of
             Some e \<Rightarrow> ([error_line pid e], [])
           | None \<Rightarrow> ([], filter has_official_review ns)))"
  by (simp add: fetch_reviews_def fetch_reviews_try_def collect_reviews_eq
           split: sum.splits option.splits)

text \<open>The test of a label is the contiguous-sublist relation of the library.\<close>

lemma str_contains_sublist: "str_contains needle hay = sublist needle hay"
  by (induction hay) (auto simp: sublist_Cons_right)

lemma count_list_filter_le: "count_list (filter P xs) x \<le> count_list xs x"
  by (induction xs) auto

text \<open>
  Claim C1, as the specification words it, fails: a label that holds the token in another
  case (\<^verbatim>\<open>official_review\<close>) qualifies under a case-insensitive match, yet the fetcher
  drops the note, since Python's \<^verbatim>\<open>in\<close> compares characters exactly.
\<close>

theorem fetch_reviews_lowercase_label_counterexample:
  "spec_official_review ''ICLR.cc/2024/Conference/-/official_review''
   \<and> snd (fetch_reviews
            (serving [\<lparr>invitations = Attr [''ICLR.cc/2024/Conference/-/official_review''],
                       signatures = Attr [''~Reviewer_ab12'']\<rparr>])
            ''P1'') = []"
proof
  show "spec_official_review ''ICLR.cc/2024/Conference/-/official_review''"
    by code_simp
next
  show "snd (fetch_reviews
            (serving [\<lparr>invitations = Attr [''ICLR.cc/2024/Conference/-/official_review''],
                       signatures = Attr [''~Reviewer_ab12'']\<rparr>])
            ''P1'') = []"
    by (simp add: fetch_reviews_eq serving_def has_official_review_def)
qed

text \<open>
  Claim C1, amended. For every paper identifier, \<open>fetch_reviews\<close> returns exactly the notes
  of the service's answer, in the order of the answer, that have an invitation label holding
  \<^verbatim>\<open>Official_Review\<close> as a case-sensitive substring at any position; notes without such a
  label (or without labels) are left out, and the result is empty when no note matches. It
  is empty as well when the request or a note of the answer raises.
\<close>

theorem fetch_reviews_official_reviews:
  "snd (fetch_reviews client pid) =
     (case client pid of
        Inl e \<Rightarrow> []
      | Inr ns \<Rightarrow>
          (case first_error ns of
             Some e \<Rightarrow> []
           | None \<Rightarrow> filter has_official_review ns))"
  by (simp add: fetch_reviews_eq split: sum.splits option.splits)

text \<open>
  Claim C7. When the request to the service raises, or a note of its answer raises while
  its labels are read, \<open>fetch_reviews\<close> prints one line with the paper identifier and the
  first 80 characters of the message, and returns the empty list. The function is total:
  it has no result other than printed lines and a list.
\<close>

theorem fetch_reviews_catches_errors:
  assumes "client pid = Inl e \<or> (\<exists>ns. client pid = Inr ns \<and> first_error ns = Some e)"
  shows "fetch_reviews client pid =
           ([''  [X] Error for '' @ pid @ '': '' @ take 80 (message e)], [])"
  using assms by (auto simp: fetch_reviews_eq error_line_def)

theorem fetch_reviews_catches_errors_witness:
  "failing (PyException
      ''0123456789012345678901234567890123456789012345678901234567890123456789012345678901234567890123456789'')
     ''P1''
   = Inl (PyException
      ''0123456789012345678901234567890123456789012345678901234567890123456789012345678901234567890123456789'')
   \<and> fetch_reviews
      (failing (PyException
        ''0123456789012345678901234567890123456789012345678901234567890123456789012345678901234567890123456789''))
      ''P1''
     = ([''  [X] Error for P1: 01234567890123456789012345678901234567890123456789012345678901234567890123456789''],
        [])"
proof -
  let ?e = "PyException
      ''0123456789012345678901234567890123456789012345678901234567890123456789012345678901234567890123456789''"
  have h: "failing ?e ''P1'' = Inl ?e"
    by (simp add: failing_def)
  from fetch_reviews_catches_errors [where client = "failing ?e" and pid = "''P1''" and e = ?e] h
  show ?thesis
    by simp
qed

text \<open>
  Claim C10. A note of the service's answer is in the result at most as often as it is in
  the answer, however many of its labels hold the token: scanning the labels of one note
  appends it at most once.
\<close>

theorem fetch_reviews_note_at_most_once:
  assumes "client pid = Inr ns"
  shows "count_list (snd (fetch_reviews client pid)) n \<le> count_list ns n
         \<and> length (scan_invitations n invs reviews) \<le> Suc (length reviews)"
  using assms
  by (simp add: fetch_reviews_eq scan_invitations_eq count_list_filter_le
           split: option.splits)

theorem fetch_reviews_note_at_most_once_witness:
  "serving [\<lparr>invitations = Attr [''V/-/Official_Review'', ''V/-/Official_Review_2''],
             signatures = Attr [''~R1'']\<rparr>] ''P1''
   = Inr [\<lparr>invitations = Attr [''V/-/Official_Review'', ''V/-/Official_Review_2''],
           signatures = Attr [''~R1'']\<rparr>]
   \<and> snd (fetch_reviews
        (serving [\<lparr>invitations = Attr [''V/-/Official_Review'', ''V/-/Official_Review_2''],
                   signatures = Attr [''~R1'']\<rparr>]) ''P1'')
     = [\<lparr>invitations = Attr [''V/-/Official_Review'', ''V/-/Official_Review_2''],
         signatures = Attr [''~R1'']\<rparr>]
   \<and> count_list (snd (fetch_reviews
        (serving [\<lparr>invitations = Attr [''V/-/Official_Review'', ''V/-/Official_Review_2''],
                   signatures = Attr [''~R1'']\<rparr>]) ''P1''))
        \<lparr>invitations = Attr [''V/-/Official_Review'', ''V/-/Official_Review_2''],
         signatures = Attr [''~R1'']\<rparr> \<le> 1"
proof -
  let ?n = "\<lparr>invitations = Attr [''V/-/Official_Review'', ''V/-/Official_Review_2''],
             signatures = Attr [''~R1'']\<rparr>"
  have h: "serving [?n] ''P1'' = Inr [?n]"
    by (simp add: serving_def)
  have r: "snd (fetch_reviews (serving [?n]) ''P1'') = [?n]"
    by (simp add: fetch_reviews_eq serving_def has_official_review_def)
  from fetch_reviews_note_at_most_once
         [where client = "serving [?n]" and pid = "''P1''" and ns = "[?n]" and n = ?n] h r
  show ?thesis
    by simp
qed

section \<open>Reviewer Extractor: properties\<close>

text \<open>
  Claim C6. For a record whose signature sequence is present and non-empty,
  \<open>extract_reviewer_id\<close> returns exactly the first signature; for a record whose
  signature sequence is missing or empty it returns absent; and where reading the
  signatures raises, the exception is caught and the result is absent as well. The
  function is total: no exception leaves it.
\<close>

theorem extract_reviewer_id_first_signature:
  "extract_reviewer_id (review\<lparr>signatures := Attr (s # sigs)\<rparr>) = Some s
   \<and> extract_reviewer_id (review\<lparr>signatures := Attr []\<rparr>) = None
   \<and> extract_reviewer_id (review\<lparr>signatures := NoAttr\<rparr>) = None
   \<and> extract_reviewer_id (review\<lparr>signatures := AttrError e\<rparr>) = None
   \<and> extract_reviewer_id_try (review\<lparr>signatures := AttrError e\<rparr>) = Inl e"
  by (simp add: extract_reviewer_id_def extract_reviewer_id_try_def)


section \<open>Expansion Engine: properties\<close>

lemma expand_reviews_eq:
  "expand_reviews p reviews (rows, c) =
     (rows @ map (make_row p) (resolved_ids reviews), c + length (resolved_ids reviews))"
  by (induction reviews arbitrary: rows c)
     (auto simp: resolved_ids_def make_row_def split: option.splits)

text \<open>One pass of the loop body, in closed form.\<close>

lemma process_paper_eq:
  "process_paper client st p =
     (let ids = resolved_ids (snd (fetch_reviews client (paper_id p)))
      in st\<lparr>fetch_log := fetch_log st @ fst (fetch_reviews client (paper_id p)),
            expanded_rows := expanded_rows st @ map (make_row p) ids,
            papers_with_reviews := papers_with_reviews st + (if ids = [] then 0 else 1),
            total_reviews := total_reviews st + length ids\<rparr>)"
  by (cases "fetch_reviews client (paper_id p)")
     (auto simp: process_paper_def expand_reviews_eq Let_def resolved_ids_def)

lemma resolved_ids_nonempty: "rid \<in> set (resolved_ids reviews) \<Longrightarrow> rid \<noteq> []"
  by (auto simp: resolved_ids_def List.map_filter_def split: option.splits if_splits)

lemma process_paper_errors: "errors (process_paper client st p) = errors st"
  by (simp add: process_paper_eq Let_def)

lemma process_papers_errors: "errors (process_papers client st ps) = errors st"
  by (induction ps arbitrary: st) (simp_all add: process_paper_errors)

lemma process_paper_rows_nonempty:
  assumes "\<forall>r\<in>set (expanded_rows st). reviewer_id r \<noteq> []"
  shows "\<forall>r\<in>set (expanded_rows (process_paper client st p)). reviewer_id r \<noteq> []"
  using assms resolved_ids_nonempty
  by (auto simp: process_paper_eq Let_def make_row_def)

lemma process_papers_rows_nonempty:
  assumes "\<forall>r\<in>set (expanded_rows st). reviewer_id r \<noteq> []"
  shows "\<forall>r\<in>set (expanded_rows (process_papers client st ps)). reviewer_id r \<noteq> []"
  using assms
proof (induction ps arbitrary: st)
  case Nil
  then show ?case by simp
next
  case (Cons p ps)
  have "\<forall>r\<in>set (expanded_rows (process_paper client st p)). reviewer_id r \<noteq> []"
    using Cons.prems by (rule process_paper_rows_nonempty)
  then show ?case
    using Cons.IH by simp
qed

text \<open>
  Claim C2 does not hold of the code. In the second end-to-end scenario the request for
  \<^verbatim>\<open>P1\<close> raises and \<^verbatim>\<open>P2\<close> has no notes: the failure is printed, both papers are
  processed, and the error counter is still \<open>0\<close>. The only increment of \<^verbatim>\<open>errors\<close>
  sits in a branch taken when the review list is falsy and not of length zero, which no
  list is.
\<close>

theorem errors_not_counted_on_fetch_failure:
  "fetch_log (process_papers scenario2_client initial_state [paper1, paper2])
     = [''  [X] Error for P1: timeout'']
   \<and> errors (process_papers scenario2_client initial_state [paper1, paper2]) = 0
   \<and> processed (summarise [paper1, paper2]
        (process_papers scenario2_client initial_state [paper1, paper2])) = 2"
  by (simp add: process_paper_eq fetch_reviews_eq scenario2_client_def initial_state_def
        paper1_def paper2_def error_line_def resolved_ids_def summarise_def Let_def)

text \<open>
  Claim C5, as the specification words it, fails: a review whose first signature is the
  empty string yields a reviewer identity that is present (the empty string), so \<open>K = 1\<close>
  and \<open>R = 1\<close>, but the engine appends no row and adds nothing to \<^verbatim>\<open>total_reviews\<close>.
\<close>

theorem expansion_empty_signature_counterexample:
  "snd (fetch_reviews (serving [review_by []]) (paper_id paper1)) = [review_by []]
   \<and> extract_reviewer_id (review_by []) = Some []
   \<and> expanded_rows (process_paper (serving [review_by []]) initial_state paper1) = []
   \<and> total_reviews (process_paper (serving [review_by []]) initial_state paper1) = 0"
  by (simp add: process_paper_eq fetch_reviews_eq serving_def initial_state_def
        review_by_def has_official_review_def resolved_ids_def
        extract_reviewer_id_def extract_reviewer_id_try_def Let_def)

text \<open>
  Claim C5, amended. For every input paper whose fetch returns \<open>K\<close> reviews of which \<open>R\<close>
  (\<open>R \<le> K\<close>) yield a reviewer identity that is present and not the empty string, the
  engine appends exactly \<open>R\<close> rows for that paper (one per such review, in order, built from
  the paper and the identity), adds \<open>R\<close> to \<^verbatim>\<open>total_reviews\<close>, and increments
  \<^verbatim>\<open>papers_with_reviews\<close> exactly when \<open>R > 0\<close>; the number of processed papers in the
  summary is the number of input papers, whatever their outcome.
\<close>

theorem process_paper_counts:
  "(let reviews = snd (fetch_reviews client (paper_id p));
        R = length (resolved_ids reviews);
        st1 = process_paper client st p
    in R \<le> length reviews
       \<and> expanded_rows st1 = expanded_rows st @ map (make_row p) (resolved_ids reviews)
       \<and> length (expanded_rows st1) = length (expanded_rows st) + R
       \<and> total_reviews st1 = total_reviews st + R
       \<and> papers_with_reviews st1 = papers_with_reviews st + (if R > 0 then 1 else 0))
   \<and> processed (summarise papers (process_papers client initial_state papers)) = length papers"
proof -
  have "length (resolved_ids reviews) \<le> length reviews" for reviews
    by (simp add: resolved_ids_def List.map_filter_def)
  then show ?thesis
    by (simp add: process_paper_eq Let_def summarise_def)
qed

lemma process_papers_rows:
  "expanded_rows (process_papers client st ps) =
     expanded_rows st
     @ concat (map (\<lambda>p. map (make_row p)
                          (resolved_ids (snd (fetch_reviews client (paper_id p))))) ps)"
  by (induction ps arbitrary: st) (simp_all add: process_paper_eq Let_def)

text \<open>
  Claim C9. Every row the engine accumulates has a non-empty reviewer identity. A review
  whose extracted identity is absent, or is the empty string, contributes no row: the loop
  goes on with the rows and the count it had. The extractor returns an empty first signature
  as it is. So the rows of a run are exactly the rows of the reviews whose identity is
  present and not empty, paper by paper and review by review.
\<close>

theorem expanded_rows_reviewer_id_nonempty:
  "(\<forall>r\<in>set (expanded_rows (process_papers client initial_state papers)). reviewer_id r \<noteq> [])
   \<and> (extract_reviewer_id review = None \<or> extract_reviewer_id review = Some [] \<longrightarrow>
        expand_reviews p (review # reviews) (rows, c) = expand_reviews p reviews (rows, c))
   \<and> extract_reviewer_id (review\<lparr>signatures := Attr ([] # sigs)\<rparr>) = Some []
   \<and> expanded_rows (process_papers client initial_state papers)
       = concat (map (\<lambda>p. map (make_row p)
                            (resolved_ids (snd (fetch_reviews client (paper_id p))))) papers)"
proof (intro conjI impI)
  show "\<forall>r\<in>set (expanded_rows (process_papers client initial_state papers)). reviewer_id r \<noteq> []"
    by (rule process_papers_rows_nonempty) (simp add: initial_state_def)
next
  assume "extract_reviewer_id review = None \<or> extract_reviewer_id review = Some []"
  then show "expand_reviews p (review # reviews) (rows, c) = expand_reviews p reviews (rows, c)"
    by auto
next
  show "extract_reviewer_id (review\<lparr>signatures := Attr ([] # sigs)\<rparr>) = Some []"
    by (simp add: extract_reviewer_id_def extract_reviewer_id_try_def)
next
  show "expanded_rows (process_papers client initial_state papers)
       = concat (map (\<lambda>p. map (make_row p)
                            (resolved_ids (snd (fetch_reviews client (paper_id p))))) papers)"
    by (simp add: process_papers_rows initial_state_def)
qed

theorem expanded_rows_reviewer_id_nonempty_witness:
  "extract_reviewer_id unsigned_review = None
   \<and> extract_reviewer_id (review_by []) = Some []
   \<and> expand_reviews paper1 [unsigned_review, review_by [], review_by ''~R1''] ([], 0)
       = expand_reviews paper1 [review_by ''~R1''] ([], 0)
   \<and> expanded_rows
        (process_papers (serving [unsigned_review, review_by ''~R1'', review_by []])
           initial_state [paper1])
     = [\<lparr>paper_id = ''P1'', forum_url = ''https://openreview.net/forum?id=P1'',
         reviewer_id = ''~R1''\<rparr>]
   \<and> reviewer_id \<lparr>paper_id = ''P1'', forum_url = ''https://openreview.net/forum?id=P1'',
         reviewer_id = ''~R1''\<rparr> \<noteq> []"
proof -
  have a: "extract_reviewer_id unsigned_review = None"
    by (simp add: unsigned_review_def extract_reviewer_id_def extract_reviewer_id_try_def)
  have b: "extract_reviewer_id (review_by []) = Some []"
    by (simp add: review_by_def extract_reviewer_id_def extract_reviewer_id_try_def)
  have rows: "expanded_rows
        (process_papers (serving [unsigned_review, review_by ''~R1'', review_by []])
           initial_state [paper1])
     = [\<lparr>paper_id = ''P1'', forum_url = ''https://openreview.net/forum?id=P1'',
         reviewer_id = ''~R1''\<rparr>]"
    by (simp add: process_paper_eq fetch_reviews_eq serving_def initial_state_def
          review_by_def unsigned_review_def has_official_review_def resolved_ids_def
          make_row_def paper1_def extract_reviewer_id_def extract_reviewer_id_try_def Let_def)
  have s1: "expand_reviews paper1 [unsigned_review, review_by [], review_by ''~R1''] ([], 0)
              = expand_reviews paper1 [review_by [], review_by ''~R1''] ([], 0)"
    using expanded_rows_reviewer_id_nonempty
            [where review = unsigned_review and p = paper1
               and reviews = "[review_by [], review_by ''~R1'']" and rows = "[]" and c = 0]
          a
    by simp
  have s2: "expand_reviews paper1 [review_by [], review_by ''~R1''] ([], 0)
              = expand_reviews paper1 [review_by ''~R1''] ([], 0)"
    using expanded_rows_reviewer_id_nonempty
            [where review = "review_by []" and p = paper1
               and reviews = "[review_by ''~R1'']" and rows = "[]" and c = 0]
          b
    by simp
  from expanded_rows_reviewer_id_nonempty
         [where client = "serving [unsigned_review, review_by ''~R1'', review_by []]"
            and papers = "[paper1]"]
       a b s1 s2 rows
  show ?thesis
    by simp
qed

section \<open>Sampler: properties\<close>

lemma mset_remove_nth:
  assumes "j < length pool"
  shows "mset pool = add_mset (pool ! j) (mset (take j pool @ drop (Suc j) pool))"
proof -
  have "pool = take j pool @ pool ! j # drop (Suc j) pool"
    using assms by (rule id_take_nth_drop)
  then have "mset pool = mset (take j pool @ pool ! j # drop (Suc j) pool)"
    by simp
  then show ?thesis by simp
qed

lemma draw_length: "k \<le> length pool \<Longrightarrow> length (fst (draw k pool g)) = k"
proof (induction k arbitrary: pool g)
  case 0
  then show ?case by simp
next
  case (Suc k)
  then have ne: "pool \<noteq> []" by auto
  let ?j = "g 0 mod length pool"
  have j: "?j < length pool" using ne by simp
  have "k \<le> length (take ?j pool @ drop (Suc ?j) pool)"
    using Suc.prems j by simp
  from Suc.IH [OF this] show ?case
    using ne by (simp add: randbelow_def split_beta)
qed

lemma draw_mset: "mset (fst (draw k pool g)) \<subseteq># mset pool"
proof (induction k arbitrary: pool g)
  case 0
  then show ?case by simp
next
  case (Suc k)
  show ?case
  proof (cases "pool = []")
    case True
    then show ?thesis by simp
  next
    case False
    let ?j = "g 0 mod length pool"
    let ?rest = "take ?j pool @ drop (Suc ?j) pool"
    have j: "?j < length pool" using False by simp
    have "mset (fst (draw k ?rest (\<lambda>i. g (Suc i)))) \<subseteq># mset ?rest"
      by (rule Suc.IH)
    then have "add_mset (pool ! ?j) (mset (fst (draw k ?rest (\<lambda>i. g (Suc i)))))
                 \<subseteq># add_mset (pool ! ?j) (mset ?rest)"
      by simp
    then show ?thesis
      using False mset_remove_nth [OF j] by (simp add: randbelow_def split_beta)
  qed
qed


lemma sampler_le: "length rows \<le> t \<Longrightarrow> sampler t g rows = Inr (rows, g)"
  by (simp add: sampler_def Let_def)

lemma sampler_gt: "t < length rows \<Longrightarrow> sampler t g rows = Inr (draw t rows g)"
  by (simp add: sampler_def random_sample_def Let_def min_def)

lemma sampler_total: "\<exists>out g1. sampler t g rows = Inr (out, g1)"
proof (cases "length rows \<le> t")
  case True
  then show ?thesis by (simp add: sampler_le)
next
  case False
  then have "sampler t g rows = Inr (draw t rows g)" by (simp add: sampler_gt)
  then show ?thesis by (cases "draw t rows g") simp
qed

lemma mset_subset_distinct:
  assumes "mset ys \<subseteq># mset xs" and "distinct xs"
  shows "distinct ys"
proof -
  have "count (mset ys) a \<le> 1" for a
  proof -
    have "count (mset ys) a \<le> count (mset xs) a"
      using assms(1) by (rule mset_subset_eq_count)
    also have "\<dots> \<le> 1"
      using assms(2) by (simp add: distinct_count_atmost_1)
    finally show ?thesis .
  qed
  then show ?thesis
    by (metis count_mset_0_iff distinct_count_atmost_1 le_antisym
        less_one linorder_not_le not_in_iff)
qed




text \<open>
  Claim C4. For every list of rows and every target size: when the list is no longer than
  the target, the sampler returns all rows, unchanged and in input order (and leaves the
  generator untouched); when it is longer, the sampler returns exactly target-size rows
  taken from distinct positions of the input (as a multiset they are contained in the input,
  so distinct input rows give distinct output rows); and a target of zero yields the empty
  list. In no case does the sampler raise.
\<close>

theorem sampler_size_cases:
  "(length rows \<le> sample_size \<longrightarrow> sampler sample_size g rows = Inr (rows, g))
   \<and> (sample_size < length rows \<longrightarrow>
        (\<exists>out g1. sampler sample_size g rows = Inr (out, g1)
           \<and> length out = sample_size
           \<and> mset out \<subseteq># mset rows
           \<and> set out \<subseteq> set rows
           \<and> (distinct rows \<longrightarrow> distinct out)))
   \<and> sampler 0 g rows = Inr ([], g)
   \<and> (\<exists>out g1. sampler sample_size g rows = Inr (out, g1))"
proof (intro conjI impI)
  show "sampler sample_size g rows = Inr (rows, g)" if "length rows \<le> sample_size"
    using that by (rule sampler_le)
next
  assume gt: "sample_size < length rows"
  obtain out g1 where d: "draw sample_size rows g = (out, g1)"
    by (cases "draw sample_size rows g")
  have len: "length out = sample_size"
    using draw_length [of sample_size rows g] gt d by simp
  have sub: "mset out \<subseteq># mset rows"
    using draw_mset [of sample_size rows g] d by simp
  have "set out \<subseteq> set rows"
    using sub by (rule set_mset_mono [simplified, of "mset out" "mset rows", simplified])
  moreover have "distinct rows \<longrightarrow> distinct out"
    using sub by (auto intro: mset_subset_distinct)
  ultimately show "\<exists>out g1. sampler sample_size g rows = Inr (out, g1)
           \<and> length out = sample_size
           \<and> mset out \<subseteq># mset rows
           \<and> set out \<subseteq> set rows
           \<and> (distinct rows \<longrightarrow> distinct out)"
    using len sub d by (simp add: sampler_gt [OF gt])
next
  show "sampler 0 g rows = Inr ([], g)"
    by (cases rows) (simp_all add: sampler_def random_sample_def Let_def)
next
  show "\<exists>out g1. sampler sample_size g rows = Inr (out, g1)"
    by (rule sampler_total)
qed

theorem sampler_size_cases_witness:
  "length [1, 2, 3 :: nat] \<le> 5
   \<and> sampler 5 (const_rng 1) [1, 2, 3 :: nat] = Inr ([1, 2, 3], const_rng 1)
   \<and> 2 < length [1, 2, 3 :: nat]
   \<and> map_sum id fst (sampler 2 (const_rng 1) [1, 2, 3 :: nat]) = Inr [2, 3]
   \<and> distinct [1, 2, 3 :: nat]
   \<and> map_sum id fst (sampler 0 (const_rng 1) [1, 2, 3 :: nat]) = Inr []"
proof -
  have v: "map_sum id fst (sampler 2 (const_rng 1) [1, 2, 3 :: nat]) = Inr [2, 3]"
    by (simp add: sampler_gt randbelow_def const_rng_def numeral_2_eq_2)
  from sampler_size_cases [of "[1, 2, 3 :: nat]" 5 "const_rng 1"]
       sampler_size_cases [of "[1, 2, 3 :: nat]" 0 "const_rng 1"] v
  show ?thesis
    by simp
qed

section \<open>The run: properties\<close>

text \<open>
  Claim C8. When the papers have been processed and no row was accumulated, the run ends
  as a failure (no reviews collected) and hands nothing to the writer; when at least one row
  was accumulated, the rows are sampled and the sample is handed to the writer. So a write
  is attempted only for a non-empty accumulation.
\<close>

theorem main_writes_only_with_rows:
  "(let st = process_papers client initial_state papers;
        r = main (Some client) (Some papers) g write_ok
    in (expanded_rows st = [] \<longrightarrow> outcome r = NoReviewsCollected \<and> written r = None)
       \<and> (expanded_rows st \<noteq> [] \<longrightarrow>
            (\<exists>sampled g1. sampler SAMPLE_SIZE g (expanded_rows st) = Inr (sampled, g1)
               \<and> written r = Some sampled
               \<and> outcome r = (if write_ok then Success else WriteFailed))))"
proof -
  obtain out g1
    where s: "sampler SAMPLE_SIZE g (expanded_rows (process_papers client initial_state papers))
                = Inr (out, g1)"
    using sampler_total by blast
  show ?thesis
    by (simp add: main_def Let_def s)
qed

theorem main_writes_only_with_rows_witness:
  "expanded_rows (process_papers (serving []) initial_state [paper1]) = []
   \<and> outcome (main (Some (serving [])) (Some [paper1]) (const_rng 0) True) = NoReviewsCollected
   \<and> written (main (Some (serving [])) (Some [paper1]) (const_rng 0) True) = None
   \<and> expanded_rows (process_papers (serving [review_by ''~R1'']) initial_state [paper1]) \<noteq> []
   \<and> written (main (Some (serving [review_by ''~R1''])) (Some [paper1]) (const_rng 0) True)
       = Some [\<lparr>paper_id = ''P1'', forum_url = ''https://openreview.net/forum?id=P1'',
                reviewer_id = ''~R1''\<rparr>]
   \<and> outcome (main (Some (serving [review_by ''~R1''])) (Some [paper1]) (const_rng 0) True)
       = Success"
proof -
  have e: "expanded_rows (process_papers (serving []) initial_state [paper1]) = []"
    by (simp add: process_paper_eq fetch_reviews_eq serving_def initial_state_def
          resolved_ids_def Let_def)
  have rows: "expanded_rows
        (process_papers (serving [review_by ''~R1'']) initial_state [paper1])
     = [\<lparr>paper_id = ''P1'', forum_url = ''https://openreview.net/forum?id=P1'',
         reviewer_id = ''~R1''\<rparr>]"
    by (simp add: process_paper_eq fetch_reviews_eq serving_def initial_state_def
          review_by_def has_official_review_def resolved_ids_def make_row_def paper1_def
          extract_reviewer_id_def extract_reviewer_id_try_def Let_def)
  have s: "sampler SAMPLE_SIZE (const_rng 0)
             [\<lparr>paper_id = ''P1'', forum_url = ''https://openreview.net/forum?id=P1'',
               reviewer_id = ''~R1''\<rparr>]
           = Inr ([\<lparr>paper_id = ''P1'', forum_url = ''https://openreview.net/forum?id=P1'',
                    reviewer_id = ''~R1''\<rparr>], const_rng 0)"
    by (simp add: sampler_le SAMPLE_SIZE_def)
  from main_writes_only_with_rows [of "serving []" "[paper1]" "const_rng 0" True]
       main_writes_only_with_rows [of "serving [review_by ''~R1'']" "[paper1]" "const_rng 0" True]
       e rows s
  show ?thesis
    by (simp add: Let_def)
qed


end
